theory Spec2Isabelle
  imports Main "HOL-Library.Word"
begin

section \<open>The Duckity WASM SDK: bindings, worker and client facade\<close>

text \<open>
  The development follows the TypeScript and JavaScript sources of the SDK:
  \<^item> \<^verbatim>\<open>wasm/pkg/duckity.js\<close>: the bindings around the compiled WebAssembly module
    (module initialisation, \<^verbatim>\<open>Challenge.solve\<close>, \<^verbatim>\<open>Solution.encode\<close>,
    \<^verbatim>\<open>Solution.raw_size\<close>);
  \<^item> \<^verbatim>\<open>wasm/js/src/worker.ts\<close>: the worker's message handler and \<^verbatim>\<open>waitForMessage\<close>;
  \<^item> \<^verbatim>\<open>wasm/js/src/duckity.ts\<close>: the \<^verbatim>\<open>DuckityClient\<close> facade.

  The compiled module itself (\<^verbatim>\<open>duckity_bg.wasm\<close>) is not part of the sources. The bindings
  are therefore parameterised by the exports of the instantiated module; one instance of
  these exports, the puzzle engine, is modelled from the specification further below.
\<close>

subsection \<open>Errors and outcomes of JavaScript calls\<close>

text \<open>
  An exception thrown by a call, or the reason a promise is rejected with, is a value
  \<open>Inl e\<close>; a normal return is \<open>Inr v\<close>.
\<close>

datatype js_error =
    InstantiateError    \<comment> \<open>fetching, compiling or instantiating the module threw\<close>
  | Trap                \<comment> \<open>a WebAssembly export trapped (\<^verbatim>\<open>WebAssembly.RuntimeError\<close>)\<close>
  | ErrorString string  \<comment> \<open>an error carrying a message (\<^verbatim>\<open>__wbindgen_throw\<close>, a rejected request)\<close>

subsection \<open>Module-level state of \<^verbatim>\<open>duckity.js\<close>\<close>

text \<open>
  The variables declared with \<^verbatim>\<open>let\<close> at the top level of \<^verbatim>\<open>duckity.js\<close>. \<open>'x\<close> is the type
  of an instance's exports object, \<open>'m\<close> the type of compiled modules. \<open>wasm = None\<close> is
  \<^verbatim>\<open>undefined\<close>; a cached view is \<open>True\<close> when it is not \<^verbatim>\<open>null\<close>. The last three fields
  are observers added to the state: they count the \<^verbatim>\<open>TextDecoder\<close> objects, the
  \<^verbatim>\<open>WebAssembly\<close> instances the script has obtained and the calls of \<^verbatim>\<open>console.warn\<close>.
\<close>

record ('x, 'm) glue =
  wasm :: "'x option"
  wbindgen_wasm_module :: "'m option"
  cachedDataViewMemory0 :: bool
  cachedUint8ArrayMemory0 :: bool
  numBytesDecoded :: nat
  textDecoders :: nat
  instantiations :: nat
  warnings :: nat

definition glue0 :: "('x, 'm) glue" where
  \<comment> \<open>the state after the script has been evaluated once\<close>
  "glue0 = \<lparr>wasm = None, wbindgen_wasm_module = None, cachedDataViewMemory0 = False,
            cachedUint8ArrayMemory0 = False, numBytesDecoded = 0, textDecoders = 1,
            instantiations = 0, warnings = 0\<rparr>"

subsection \<open>Initialisation: \<^verbatim>\<open>initSync\<close> and \<^verbatim>\<open>__wbg_init\<close>\<close>

text \<open>
  What the platform does when asked for a module. \<open>'i\<close> is the type of the inputs a caller
  may pass (bytes, a compiled module, a URL, a response). The first argument of
  \<open>instantiateSync\<close> and of \<open>load\<close> is the number of instances created before, so that every
  instantiation can give an instance of its own.
  \<^item> \<open>instantiateSync n i\<close>: \<^verbatim>\<open>new WebAssembly.Module(i)\<close> unless \<open>i\<close> is a module already, then
    \<^verbatim>\<open>new WebAssembly.Instance(module, imports)\<close>; \<open>None\<close> when one of them throws.
  \<^item> \<open>load n i\<close>: the asynchronous path, \<^verbatim>\<open>fetch\<close> where the input is a URL or a request and
    then \<^verbatim>\<open>__wbg_load\<close>; \<open>load n None\<close> is the default
    \<^verbatim>\<open>new URL('duckity_bg.wasm', import.meta.url)\<close>. The first component of the result tells
    whether \<^verbatim>\<open>__wbg_load\<close> fell back from \<^verbatim>\<open>instantiateStreaming\<close> with a \<^verbatim>\<open>console.warn\<close>; the
    second is \<open>None\<close> for a rejection.
  \<^item> \<open>start x\<close>: whether \<^verbatim>\<open>__wbindgen_start\<close> of the instance returns normally.
\<close>

record ('i, 'x, 'm) host =
  instantiateSync :: "nat \<Rightarrow> 'i \<Rightarrow> ('x \<times> 'm) option"
  load :: "nat \<Rightarrow> 'i option \<Rightarrow> bool \<times> ('x \<times> 'm) option"
  start :: "'x \<Rightarrow> bool"

text \<open>
  The argument of the two entry points: nothing, a plain object with the field
  \<^verbatim>\<open>module\<close> (\<^verbatim>\<open>module_or_path\<close>), which may itself be undefined, or the input passed
  directly, which is deprecated and warned about.
\<close>

datatype 'i init_arg = Undefined | Options "'i option" | Direct 'i

definition unwrap_arg :: "'i init_arg \<Rightarrow> ('x, 'm) glue \<Rightarrow> 'i option \<times> ('x, 'm) glue" where
  \<comment> \<open>the \<^verbatim>\<open>typeof module !== 'undefined'\<close> block shared by both entry points\<close>
  "unwrap_arg a g =
     (case a of
        Undefined \<Rightarrow> (None, g)
      | Options v \<Rightarrow> (v, g)
      | Direct v \<Rightarrow> (Some v, g\<lparr>warnings := Suc (warnings g)\<rparr>))"

definition wbg_finalize_init ::
  "('i, 'x, 'm) host \<Rightarrow> 'x \<Rightarrow> 'm \<Rightarrow> ('x, 'm) glue \<Rightarrow> (js_error + 'x) \<times> ('x, 'm) glue" where
  "wbg_finalize_init h x m g =
     (let g' = g\<lparr>wasm := Some x, wbindgen_wasm_module := Some m,
                 cachedDataViewMemory0 := False, cachedUint8ArrayMemory0 := False\<rparr>
      in if start h x then (Inr x, g') else (Inl Trap, g'))"

definition initSync ::
  "('i, 'x, 'm) host \<Rightarrow> 'i init_arg \<Rightarrow> ('x, 'm) glue \<Rightarrow> (js_error + 'x) \<times> ('x, 'm) glue" where
  \<comment> \<open>synchronous: nothing else runs between its test of \<^verbatim>\<open>wasm\<close> and its assignment\<close>
  "initSync h a g =
     (case wasm g of
        Some x \<Rightarrow> (Inr x, g)
      | None \<Rightarrow>
          (case unwrap_arg a g of
             (None, g1) \<Rightarrow> (Inl InstantiateError, g1)
           | (Some i, g1) \<Rightarrow>
               (case instantiateSync h (instantiations g1) i of
                  None \<Rightarrow> (Inl InstantiateError, g1)
                | Some (x, m) \<Rightarrow>
                    wbg_finalize_init h x m (g1\<lparr>instantiations := Suc (instantiations g1)\<rparr>))))"

text \<open>
  \<^verbatim>\<open>__wbg_init\<close> is an \<^verbatim>\<open>async\<close> function. Its first part runs when it is called: the test
  \<^verbatim>\<open>wasm !== undefined\<close>, the unwrapping of the argument and the start of the request. It
  then waits at \<^verbatim>\<open>await __wbg_load(await module_or_path, imports)\<close>, and other code of the
  script, further calls of \<^verbatim>\<open>__wbg_init\<close> included, can run before it continues. Its second
  part runs when the module has arrived: \<^verbatim>\<open>__wbg_finalize_init\<close> assigns \<^verbatim>\<open>wasm\<close> without
  testing it again.
\<close>

datatype ('x, 'i) begun = Returned 'x | Awaiting "'i option"

definition wbg_init_begin ::
  "'i init_arg \<Rightarrow> ('x, 'm) glue \<Rightarrow> ('x, 'i) begun \<times> ('x, 'm) glue" where
  \<comment> \<open>up to the first \<^verbatim>\<open>await\<close>: the call returns \<^verbatim>\<open>wasm\<close>, or waits for the input it asked for\<close>
  "wbg_init_begin a g =
     (case wasm g of
        Some x \<Rightarrow> (Returned x, g)
      | None \<Rightarrow> (case unwrap_arg a g of (i, g1) \<Rightarrow> (Awaiting i, g1)))"

definition wbg_init_resume ::
  "('i, 'x, 'm) host \<Rightarrow> 'i option \<Rightarrow> ('x, 'm) glue \<Rightarrow> (js_error + 'x) \<times> ('x, 'm) glue" where
  \<comment> \<open>after the \<^verbatim>\<open>await\<close>: the outcome of the load, then \<^verbatim>\<open>__wbg_finalize_init\<close>\<close>
  "wbg_init_resume h i g =
     (case load h (instantiations g) i of
        (warned, r) \<Rightarrow>
          (let g1 = (if warned then g\<lparr>warnings := Suc (warnings g)\<rparr> else g)
           in case r of
                None \<Rightarrow> (Inl InstantiateError, g1)
              | Some (x, m) \<Rightarrow>
                  wbg_finalize_init h x m (g1\<lparr>instantiations := Suc (instantiations g1)\<rparr>)))"

definition wbg_init ::
  "('i, 'x, 'm) host \<Rightarrow> 'i init_arg \<Rightarrow> ('x, 'm) glue \<Rightarrow> (js_error + 'x) \<times> ('x, 'm) glue" where
  \<comment> \<open>a call of \<^verbatim>\<open>__wbg_init\<close> during whose wait nothing else touches the script\<close>
  "wbg_init h a g =
     (case wbg_init_begin a g of
        (Returned x, g1) \<Rightarrow> (Inr x, g1)
      | (Awaiting i, g1) \<Rightarrow> wbg_init_resume h i g1)"

text \<open>
  Runs of the script in which calls of the two entry points may overlap. An action is a
  call, or the continuation of the \<open>k\<close>-th call of \<^verbatim>\<open>__wbg_init\<close> that is waiting. The state
  is the state of the script together with the inputs the waiting calls have asked for,
  oldest first. A step yields the result of the call that returned or continued, if any.
\<close>

datatype 'i init_call = Init "'i init_arg" | InitSync "'i init_arg"

datatype 'i action = Call "'i init_call" | Resume nat

fun init_step ::
  "('i, 'x, 'm) host \<Rightarrow> 'i action \<Rightarrow> ('x, 'm) glue \<times> 'i option list \<Rightarrow>
     (js_error + 'x) option \<times> (('x, 'm) glue \<times> 'i option list)" where
  "init_step h (Call (InitSync a)) (g, ws) =
     (case initSync h a g of (r, g1) \<Rightarrow> (Some r, (g1, ws)))"
| "init_step h (Call (Init a)) (g, ws) =
     (case wbg_init_begin a g of
        (Returned x, g1) \<Rightarrow> (Some (Inr x), (g1, ws))
      | (Awaiting i, g1) \<Rightarrow> (None, (g1, ws @ [i])))"
| "init_step h (Resume k) (g, ws) =
     (if k < length ws
      then (case wbg_init_resume h (ws ! k) g of
              (r, g1) \<Rightarrow> (Some r, (g1, take k ws @ drop (Suc k) ws)))
      else (None, (g, ws)))"

fun init_run ::
  "('i, 'x, 'm) host \<Rightarrow> 'i action list \<Rightarrow> ('x, 'm) glue \<times> 'i option list \<Rightarrow>
     (js_error + 'x) option list \<times> (('x, 'm) glue \<times> 'i option list)" where
  "init_run h [] st = ([], st)"
| "init_run h (a # as) st =
     (case init_step h a st of
        (r, st1) \<Rightarrow> (case init_run h as st1 of (rs, st2) \<Rightarrow> (r # rs, st2)))"

subsection \<open>The exports of the instantiated module\<close>

text \<open>
  The functions of \<^verbatim>\<open>InitOutput\<close> the bindings below call. A Rust object behind a pointer is
  represented by the value it holds (\<open>'c\<close> for a challenge, \<open>'s\<close> for a solution), a Rust
  \<^verbatim>\<open>String\<close> handed over as pointer and length by its text; linear memory and its allocator
  are not modelled. An export that throws returns \<open>Inl\<close>.
  \<^item> \<open>duckityclient_get_challenge domain app_id profile_code\<close>: how the promise of
    \<^verbatim>\<open>duckityclient_get_challenge\<close> settles for a client made by
    \<^verbatim>\<open>duckityclient_with_domain(domain)\<close>; it includes the request over the network.
  \<^item> \<open>solution_raw_size\<close> returns a wasm \<^verbatim>\<open>i32\<close>.
\<close>

record ('c, 's) exports =
  duckityclient_get_challenge :: "string \<Rightarrow> string \<Rightarrow> string \<Rightarrow> js_error + 'c"
  challenge_solve :: "'c \<Rightarrow> js_error + 's"
  solution_encode :: "'s \<Rightarrow> js_error + string"
  solution_raw_size :: "'s \<Rightarrow> 32 word"

subsection \<open>The classes of \<^verbatim>\<open>duckity.js\<close>\<close>

datatype 'c Challenge = Challenge (challenge_ptr: 'c)
datatype 's Solution = Solution (solution_ptr: 's)
datatype WasmClient = WasmClient (client_ptr: string)

definition with_domain :: "string \<Rightarrow> WasmClient" where
  \<comment> \<open>\<^verbatim>\<open>DuckityClient.with_domain\<close>: the client object holds the domain; that
      \<^verbatim>\<open>passStringToWasm0\<close> creates the cached view of the memory is not tracked\<close>
  "with_domain domain = WasmClient domain"

definition get_challenge ::
  "('c, 's) exports \<Rightarrow> WasmClient \<Rightarrow> string \<Rightarrow> string \<Rightarrow> js_error + 'c Challenge" where
  \<comment> \<open>\<^verbatim>\<open>DuckityClient.get_challenge\<close>, awaited; the module wraps the result with \<^verbatim>\<open>Challenge.__wrap\<close>\<close>
  "get_challenge ex this app_id profile_code =
     (case duckityclient_get_challenge ex (client_ptr this) app_id profile_code of
        Inl e \<Rightarrow> Inl e
      | Inr c \<Rightarrow> Inr (Challenge c))"

definition Challenge_solve :: "('c, 's) exports \<Rightarrow> 'c Challenge \<Rightarrow> js_error + 's Solution" where
  \<comment> \<open>\<^verbatim>\<open>Challenge.solve\<close>\<close>
  "Challenge_solve ex this =
     (case challenge_solve ex (challenge_ptr this) of
        Inl e \<Rightarrow> Inl e
      | Inr ret \<Rightarrow> Inr (Solution ret))"

definition MAX_SAFARI_DECODE_BYTES :: nat where
  "MAX_SAFARI_DECODE_BYTES = 2146435072"

definition decodeText :: "string \<Rightarrow> ('x, 'm) glue \<Rightarrow> string \<times> ('x, 'm) glue" where
  \<comment> \<open>\<^verbatim>\<open>decodeText(ptr, len)\<close> on the bytes of a Rust \<^verbatim>\<open>String\<close>: valid UTF-8, so the fatal
      decoder returns its text; \<open>length txt\<close> is \<^verbatim>\<open>len\<close>\<close>
  "decodeText txt g =
     (let n = numBytesDecoded g + length txt;
          g1 = (if n \<ge> MAX_SAFARI_DECODE_BYTES
                then g\<lparr>numBytesDecoded := length txt, textDecoders := Suc (textDecoders g)\<rparr>
                else g\<lparr>numBytesDecoded := n\<rparr>)
      in (txt, g1\<lparr>cachedUint8ArrayMemory0 := True\<rparr>))"

definition getStringFromWasm0 :: "string \<Rightarrow> ('x, 'm) glue \<Rightarrow> string \<times> ('x, 'm) glue" where
  "getStringFromWasm0 txt g = decodeText txt g"

definition thrown :: "js_error \<Rightarrow> ('x, 'm) glue \<Rightarrow> ('x, 'm) glue" where
  \<comment> \<open>an error with a message leaves the module through the import \<^verbatim>\<open>__wbindgen_throw\<close>,
      which decodes the message with \<^verbatim>\<open>getStringFromWasm0\<close> before it throws\<close>
  "thrown e g = (case e of ErrorString msg \<Rightarrow> snd (getStringFromWasm0 msg g) | _ \<Rightarrow> g)"

definition Solution_encode ::
  "('c, 's) exports \<Rightarrow> 's Solution \<Rightarrow> ('x, 'm) glue \<Rightarrow> (js_error + string) \<times> ('x, 'm) glue" where
  \<comment> \<open>\<^verbatim>\<open>Solution.encode\<close>, with \<open>ex\<close> the exports that \<^verbatim>\<open>wasm\<close> holds when the method runs (a
      solution object exists only after an initialisation); the \<^verbatim>\<open>finally\<close> block frees the
      string in linear memory\<close>
  "Solution_encode ex this g =
     (case solution_encode ex (solution_ptr this) of
        Inl e \<Rightarrow> (Inl e, thrown e g)
      | Inr ret \<Rightarrow> (case getStringFromWasm0 ret g of (txt, g1) \<Rightarrow> (Inr txt, g1)))"

definition to_uint32 :: "int \<Rightarrow> nat" where
  \<comment> \<open>\<^verbatim>\<open>x >>> 0\<close> on an integral number\<close>
  "to_uint32 x = nat (x mod 2 ^ 32)"

definition Solution_raw_size :: "('c, 's) exports \<Rightarrow> 's Solution \<Rightarrow> nat" where
  \<comment> \<open>\<^verbatim>\<open>Solution.raw_size\<close>: JavaScript reads the returned \<^verbatim>\<open>i32\<close> as a signed number\<close>
  "Solution_raw_size ex this = to_uint32 (sint (solution_raw_size ex (solution_ptr this)))"

subsection \<open>The worker: \<^verbatim>\<open>self.onmessage\<close> of \<^verbatim>\<open>worker.ts\<close>\<close>

record ChallengeRequest =
  domain :: string
  appId :: string
  profileCode :: string

text \<open>
  The handler is an \<^verbatim>\<open>async\<close> function without \<^verbatim>\<open>try\<close>: whatever one of its steps throws or
  rejects with becomes the rejection of the promise the handler returns (\<open>Inl\<close>), and the
  steps after it are not run. \<open>Inr encoded\<close> means that \<^verbatim>\<open>self.postMessage(encoded)\<close> was reached.
  Only this outcome is recorded. The state of the worker's script after the handler is
  not: the strings passed to the module and decoded from it while the challenge is
  fetched change the cached views and the count of decoded bytes by amounts the sources do
  not determine, and the outcome does not depend on them.
\<close>

definition onmessage ::
  "('i, ('c, 's) exports, 'm) host \<Rightarrow> ChallengeRequest \<Rightarrow> (('c, 's) exports, 'm) glue \<Rightarrow>
     js_error + string" where
  "onmessage h data g =
     (case wbg_init h Undefined g of
        (Inl e, g1) \<Rightarrow> Inl e
      | (Inr ex, g1) \<Rightarrow>
          (case get_challenge ex (with_domain (domain data)) (appId data) (profileCode data) of
             Inl e \<Rightarrow> Inl e
           | Inr challenge \<Rightarrow>
               (case Challenge_solve ex challenge of
                  Inl e \<Rightarrow> Inl e
                | Inr solution \<Rightarrow>
                    (case Solution_encode ex solution g1 of
                       (Inl e, g2) \<Rightarrow> Inl e
                     | (Inr encoded, g2) \<Rightarrow> Inr encoded))))"

subsection \<open>The page: workers, promises and \<^verbatim>\<open>waitForMessage\<close>\<close>

text \<open>
  The state of the calling page as far as the facade touches it. A worker is identified by
  its position in \<open>workers\<close>, a promise by its position in \<open>promises\<close>. The two handlers that
  \<^verbatim>\<open>waitForMessage\<close> creates close over one promise; a registered handler is recorded by the
  number of that promise. \<open>terminated\<close> records that a worker is gone: a program stops a
  worker by \<^verbatim>\<open>Worker.terminate()\<close> on the page or by \<^verbatim>\<open>self.close()\<close> inside it, neither of
  which occurs in \<^verbatim>\<open>duckity.ts\<close> or \<^verbatim>\<open>worker.ts\<close>, and the platform gives up a worker whose
  script it cannot load. What the platform does when the page goes away is not part of
  the model.
\<close>

datatype promise = Pending | Fulfilled string | Rejected string

record worker =
  terminated :: bool
  posted :: "ChallengeRequest list"   \<comment> \<open>the messages sent to the worker, oldest first\<close>
  on_message :: "nat list"            \<comment> \<open>the \<^verbatim>\<open>successHandler\<close>s registered for \<^verbatim>\<open>"message"\<close>\<close>
  on_error :: "nat list"              \<comment> \<open>the \<^verbatim>\<open>errorHandler\<close>s registered for \<^verbatim>\<open>"error"\<close>\<close>

record page =
  workers :: "worker list"
  promises :: "promise list"

definition page0 :: page where
  "page0 = \<lparr>workers = [], promises = []\<rparr>"

definition settle :: "promise \<Rightarrow> promise \<Rightarrow> promise" where
  \<comment> \<open>\<^verbatim>\<open>resolve\<close> and \<^verbatim>\<open>reject\<close> have no effect on a settled promise\<close>
  "settle outcome old = (case old of Pending \<Rightarrow> outcome | _ \<Rightarrow> old)"

definition settle_promise :: "promise \<Rightarrow> nat \<Rightarrow> page \<Rightarrow> page" where
  "settle_promise outcome p pg =
     (if p < length (promises pg)
      then pg\<lparr>promises := (promises pg)[p := settle outcome (promises pg ! p)]\<rparr>
      else pg)"

definition update_worker :: "nat \<Rightarrow> (worker \<Rightarrow> worker) \<Rightarrow> page \<Rightarrow> page" where
  "update_worker w f pg =
     (if w < length (workers pg)
      then pg\<lparr>workers := (workers pg)[w := f (workers pg ! w)]\<rparr>
      else pg)"

definition new_Worker :: "page \<Rightarrow> nat \<times> page" where
  \<comment> \<open>\<^verbatim>\<open>new Worker(workerUrl, { type: "module" })\<close>\<close>
  "new_Worker pg =
     (length (workers pg),
      pg\<lparr>workers := workers pg @
            [\<lparr>terminated = False, posted = [], on_message = [], on_error = []\<rparr>]\<rparr>)"

definition worker_gone :: "nat \<Rightarrow> page \<Rightarrow> page" where
  \<comment> \<open>the platform gives up worker \<open>w\<close>, whose script could not be loaded\<close>
  "worker_gone w pg = update_worker w (\<lambda>wk. wk\<lparr>terminated := True\<rparr>) pg"

definition postMessage :: "nat \<Rightarrow> ChallengeRequest \<Rightarrow> page \<Rightarrow> page" where
  "postMessage w data pg = update_worker w (\<lambda>wk. wk\<lparr>posted := posted wk @ [data]\<rparr>) pg"

definition successHandler :: "nat \<Rightarrow> nat \<Rightarrow> string \<Rightarrow> page \<Rightarrow> page" where
  \<comment> \<open>the handler of promise \<open>p\<close> on worker \<open>w\<close>, called with \<^verbatim>\<open>event.data\<close>\<close>
  "successHandler w p data pg =
     settle_promise (Fulfilled data) p
       (update_worker w (\<lambda>wk. wk\<lparr>on_message := removeAll p (on_message wk)\<rparr>) pg)"

definition errorHandler :: "nat \<Rightarrow> nat \<Rightarrow> string \<Rightarrow> page \<Rightarrow> page" where
  \<comment> \<open>the handler of promise \<open>p\<close> on worker \<open>w\<close>, called with \<^verbatim>\<open>ev.error\<close> as text\<close>
  "errorHandler w p err pg =
     settle_promise
       (Rejected (''An error occurred while solving a Duckity challenge: '' @ err)) p
       (update_worker w
          (\<lambda>wk. wk\<lparr>on_message := removeAll p (on_message wk),
                     on_error := removeAll p (on_error wk)\<rparr>) pg)"

definition waitForMessage :: "nat \<Rightarrow> page \<Rightarrow> nat \<times> page" where
  \<comment> \<open>returns the new promise\<close>
  "waitForMessage w pg =
     (let p = length (promises pg);
          pg1 = pg\<lparr>promises := promises pg @ [Pending]\<rparr>;
          pg2 = update_worker w (\<lambda>wk. wk\<lparr>on_message := on_message wk @ [p]\<rparr>) pg1;
          pg3 = update_worker w (\<lambda>wk. wk\<lparr>on_error := on_error wk @ [p]\<rparr>) pg2
      in (p, pg3))"

text \<open>
  An event fired at a worker object calls the handlers registered for its type when the
  dispatch starts, in the order of their registration.
\<close>

datatype worker_event = MessageEvent string | ErrorEvent string

fun dispatchEvent :: "nat \<Rightarrow> worker_event \<Rightarrow> page \<Rightarrow> page" where
  "dispatchEvent w (MessageEvent data) pg =
     (if w < length (workers pg)
      then fold (\<lambda>p. successHandler w p data) (on_message (workers pg ! w)) pg
      else pg)"
| "dispatchEvent w (ErrorEvent err) pg =
     (if w < length (workers pg)
      then fold (\<lambda>p. errorHandler w p err) (on_error (workers pg ! w)) pg
      else pg)"

subsection \<open>The facade: \<^verbatim>\<open>DuckityClient\<close> of \<^verbatim>\<open>duckity.ts\<close>\<close>

datatype DuckityClient = DuckityClient (this_domain: string)

definition default_client :: DuckityClient where
  \<comment> \<open>the constructor's default argument\<close>
  "default_client = DuckityClient ''quack.duckity.dev''"

definition DuckityClient_solve :: "DuckityClient \<Rightarrow> string \<Rightarrow> string \<Rightarrow> page \<Rightarrow> nat \<times> page" where
  \<comment> \<open>\<^verbatim>\<open>DuckityClient.solve\<close>: returns the promise; the worker stays a local variable\<close>
  "DuckityClient_solve this app_id profile_code pg =
     (case new_Worker pg of
        (worker, pg1) \<Rightarrow>
          waitForMessage worker
            (postMessage worker
               \<lparr>domain = this_domain this, appId = app_id, profileCode = profile_code\<rparr> pg1))"

subsection \<open>A worker answering its page\<close>

text \<open>
  What reaches the worker object on the page for one posted request, following the HTML
  standard. A script of the worker that cannot be fetched fires a plain \<^verbatim>\<open>error\<close> event at
  the worker object, whose \<^verbatim>\<open>error\<close> property reads \<^verbatim>\<open>undefined\<close>, and there is no worker
  any more. Otherwise the handler runs in the worker's own copy of \<^verbatim>\<open>duckity.js\<close>:
  \<^verbatim>\<open>postMessage\<close> fires \<^verbatim>\<open>message\<close>; a rejection of the promise an \<^verbatim>\<open>async\<close> handler returns is
  an unhandled rejection inside the worker, which fires \<^verbatim>\<open>unhandledrejection\<close> at the
  worker's global scope and nothing at the worker object. In both of these cases the
  worker goes on waiting for messages.
\<close>

definition worker_events ::
  "bool \<Rightarrow> ('i, ('c, 's) exports, 'm) host \<Rightarrow> ChallengeRequest \<Rightarrow> worker_event list" where
  "worker_events script_ok h data =
     (if \<not> script_ok then [ErrorEvent ''undefined'']
      else (case onmessage h data glue0 of
              Inr encoded \<Rightarrow> [MessageEvent encoded]
            | Inl e \<Rightarrow> []))"

definition solve_round ::
  "bool \<Rightarrow> ('i, ('c, 's) exports, 'm) host \<Rightarrow> DuckityClient \<Rightarrow> string \<Rightarrow> string \<Rightarrow> page \<Rightarrow>
     nat \<times> page" where
  \<comment> \<open>one call of the facade, followed by everything its worker sends back\<close>
  "solve_round script_ok h this app_id profile_code pg =
     (case DuckityClient_solve this app_id profile_code pg of
        (p, pg1) \<Rightarrow>
          (let w = length (workers pg);
               pg2 = (if script_ok then pg1 else worker_gone w pg1);
               evs = concat (map (worker_events script_ok h) (posted (workers pg2 ! w)))
           in (p, fold (dispatchEvent w) evs pg2)))"

subsection \<open>A platform and a module for evaluation\<close>

definition ready_host :: "'x \<Rightarrow> (nat, 'x, nat) host" where
  \<comment> \<open>a platform on which every request for the module succeeds, with exports \<open>x\<close>\<close>
  "ready_host x =
     \<lparr>instantiateSync = (\<lambda>n i. Some (x, i)), load = (\<lambda>n i. (False, Some (x, 0))),
      start = (\<lambda>x. True)\<rparr>"

definition counting_host :: "(nat, nat, nat) host" where
  \<comment> \<open>a platform on which every request succeeds; the exports of an instance are written
      as its number, 0 for the first instance created\<close>
  "counting_host =
     \<lparr>instantiateSync = (\<lambda>n i. Some (n, i)), load = (\<lambda>n i. (False, Some (n, 0))),
      start = (\<lambda>x. True)\<rparr>"

definition module_answering :: "string \<Rightarrow> (unit, unit) exports" where
  \<comment> \<open>a module whose every step succeeds and whose token is \<open>token\<close>\<close>
  "module_answering token =
     \<lparr>duckityclient_get_challenge = (\<lambda>d a p. Inr ()), challenge_solve = (\<lambda>c. Inr ()),
      solution_encode = (\<lambda>s. Inr token), solution_raw_size = (\<lambda>s. 0)\<rparr>"

section \<open>The puzzle engine\<close>

text \<open>
  Modelled from the spec: the engine behind the exports \<^verbatim>\<open>challenge_solve\<close>,
  \<^verbatim>\<open>solution_encode\<close> and \<^verbatim>\<open>solution_raw_size\<close> is compiled into \<^verbatim>\<open>duckity_bg.wasm\<close>, which
  is not among the sources. The definitions of this section follow the words of the
  specification (data model, puzzle engine, solution encoding). The specification leaves
  the digest, the difficulty predicate, the byte form of a candidate and the binary layout
  open; they are the fields of a \<open>scheme\<close>.
\<close>

type_synonym byte = "8 word"

text \<open>
  Modelled from the spec: the data model. A challenge holds the seed, the difficulty, the
  identifiers it was issued for and an optional validity window; a solution holds the
  proof found and the challenge it solves. Times are numbers on one clock.
\<close>

record challenge =
  seed :: "byte list"
  difficulty :: nat
  issued_appId :: string
  issued_profileCode :: string
  issuedAt :: "nat option"
  expiresAt :: "nat option"

record solution =
  proofv :: "byte list"          \<comment> \<open>the field \<^verbatim>\<open>proof\<close>\<close>
  sourceChallenge :: challenge

datatype engine_error = Unsatisfiable | Expired

text \<open>
  Modelled from the spec: what the specification leaves to an agreement with the server.
  \<open>candidate n\<close> is the byte form of the \<open>n\<close>-th candidate proof, \<open>maxAttempts\<close> the bound of
  the search, \<open>layout\<close> the binary layout of a challenge and a proof before encoding.
\<close>

record scheme =
  digest :: "byte list \<Rightarrow> byte list"
  satisfies :: "byte list \<Rightarrow> nat \<Rightarrow> bool"
  candidate :: "nat \<Rightarrow> byte list"
  maxAttempts :: nat
  layout :: "challenge \<Rightarrow> byte list \<Rightarrow> byte list"

definition verify :: "scheme \<Rightarrow> challenge \<Rightarrow> byte list \<Rightarrow> bool" where
  \<comment> \<open>Modelled from the spec: \<^verbatim>\<open>digest(seed ++ proof)\<close> satisfies \<^verbatim>\<open>difficulty\<close>\<close>
  "verify sch C p = satisfies sch (digest sch (seed C @ p)) (difficulty C)"

fun search :: "scheme \<Rightarrow> challenge \<Rightarrow> nat \<Rightarrow> nat \<Rightarrow> nat \<times> byte list option" where
  \<comment> \<open>Modelled from the spec: candidates \<open>n\<close>, \<open>n + 1\<close>, ... are tried in order, at most \<open>k\<close> of
      them; the result is the number of candidates tried and the first proof found\<close>
  "search sch C n 0 = (0, None)"
| "search sch C n (Suc k) =
     (if verify sch C (candidate sch n) then (1, Some (candidate sch n))
      else (case search sch C (Suc n) k of (a, r) \<Rightarrow> (Suc a, r)))"

definition expired :: "nat \<Rightarrow> challenge \<Rightarrow> bool" where
  \<comment> \<open>Modelled from the spec: the validity window has passed at time \<open>now\<close>\<close>
  "expired now C = (case expiresAt C of None \<Rightarrow> False | Some t \<Rightarrow> t < now)"

definition solve :: "scheme \<Rightarrow> nat \<Rightarrow> challenge \<Rightarrow> nat \<times> (engine_error + solution)" where
  \<comment> \<open>Modelled from the spec: \<open>now\<close> is the time solving starts; the first component counts
      the candidates tried\<close>
  "solve sch now C =
     (if expired now C then (0, Inl Expired)
      else (case search sch C 0 (maxAttempts sch) of
              (a, None) \<Rightarrow> (a, Inl Unsatisfiable)
            | (a, Some p) \<Rightarrow> (a, Inr \<lparr>proofv = p, sourceChallenge = C\<rparr>)))"

definition serialize :: "scheme \<Rightarrow> solution \<Rightarrow> byte list" where
  \<comment> \<open>Modelled from the spec: the serialized form before encoding\<close>
  "serialize sch s = layout sch (sourceChallenge s) (proofv s)"

definition b64url_alphabet :: string where
  \<comment> \<open>Modelled from the spec: the URL-safe base64 alphabet\<close>
  "b64url_alphabet = ''ABCDEFGHIJKLMNOPQRSTUVWXYZabcdefghijklmnopqrstuvwxyz0123456789-_''"

definition b64char :: "nat \<Rightarrow> char" where
  \<comment> \<open>Modelled from the spec: the character of a six-bit value\<close>
  "b64char i = b64url_alphabet ! (i mod 64)"

fun b64url :: "byte list \<Rightarrow> string" where
  \<comment> \<open>Modelled from the spec: URL-safe base64 without padding; three bytes give four
      characters, a rest of one or two bytes gives two or three\<close>
  "b64url [] = []"
| "b64url [a] = [b64char (unat a div 4), b64char (unat a mod 4 * 16)]"
| "b64url [a, b] =
     [b64char (unat a div 4), b64char (unat a mod 4 * 16 + unat b div 16),
      b64char (unat b mod 16 * 4)]"
| "b64url (a # b # c # bs) =
     [b64char (unat a div 4), b64char (unat a mod 4 * 16 + unat b div 16),
      b64char (unat b mod 16 * 4 + unat c div 64), b64char (unat c mod 64)] @ b64url bs"

definition encode :: "scheme \<Rightarrow> solution \<Rightarrow> string" where
  \<comment> \<open>Modelled from the spec: the token of a solution\<close>
  "encode sch s = b64url (serialize sch s)"

definition rawSize :: "scheme \<Rightarrow> solution \<Rightarrow> nat" where
  \<comment> \<open>Modelled from the spec: the byte length of the serialized form\<close>
  "rawSize sch s = length (serialize sch s)"

definition engine_error_text :: "engine_error \<Rightarrow> string" where
  \<comment> \<open>Modelled from the spec: the name an engine error is thrown under\<close>
  "engine_error_text e = (case e of Unsatisfiable \<Rightarrow> ''Unsatisfiable'' | Expired \<Rightarrow> ''Expired'')"

definition engine ::
  "scheme \<Rightarrow> nat \<Rightarrow> (string \<Rightarrow> string \<Rightarrow> string \<Rightarrow> js_error + challenge) \<Rightarrow>
     (challenge, solution) exports" where
  \<comment> \<open>Modelled from the spec: the exports of a module that holds this engine; \<open>fetch\<close> is the
      external transport, and a size leaves the module as a 32-bit value\<close>
  "engine sch now fetch =
     \<lparr>duckityclient_get_challenge = fetch,
      challenge_solve =
        (\<lambda>C. case snd (solve sch now C) of
               Inl e \<Rightarrow> Inl (ErrorString (engine_error_text e))
             | Inr s \<Rightarrow> Inr s),
      solution_encode = (\<lambda>s. Inr (encode sch s)),
      solution_raw_size = (\<lambda>s. of_nat (rawSize sch s))\<rparr>"

subsection \<open>A small scheme for evaluation\<close>

text \<open>
  The predicate is the specification's example, a required number of leading zero bits.
  The digest is a stand-in that can be evaluated by hand: the sum of the bytes, as one byte.
\<close>

definition clz8 :: "byte \<Rightarrow> nat" where
  "clz8 b = length (takeWhile (\<lambda>i. \<not> bit b i) (rev [0..<8]))"

fun leading_zero_bits :: "byte list \<Rightarrow> nat" where
  "leading_zero_bits [] = 0"
| "leading_zero_bits (b # bs) = (if b = 0 then 8 + leading_zero_bits bs else clz8 b)"

definition demo_scheme :: scheme where
  "demo_scheme =
     \<lparr>digest = (\<lambda>bs. [sum_list bs]),
      satisfies = (\<lambda>d bits. bits \<le> leading_zero_bits d),
      candidate = (\<lambda>n. [of_nat n]),
      maxAttempts = 16,
      layout = (\<lambda>C p. seed C @ p)\<rparr>"

definition demo_challenge :: challenge where
  "demo_challenge =
     \<lparr>seed = [0xFD], difficulty = 8, issued_appId = ''app-1'',
      issued_profileCode = ''profile-9'', issuedAt = None, expiresAt = Some 100\<rparr>"

definition demo_solution :: solution where
  "demo_solution = \<lparr>proofv = [3], sourceChallenge = demo_challenge\<rparr>"

section \<open>Properties of the bindings, the worker and the facade\<close>

subsection \<open>Initialisation\<close>

lemma wbg_init_begin_defined: "wasm g = Some x \<Longrightarrow> wbg_init_begin a g = (Returned x, g)"
  by (simp add: wbg_init_begin_def)

lemma wbg_init_defined: "wasm g = Some x \<Longrightarrow> wbg_init h a g = (Inr x, g)"
  by (simp add: wbg_init_def wbg_init_begin_defined)

lemma initSync_defined: "wasm g = Some x \<Longrightarrow> initSync h a g = (Inr x, g)"
  by (simp add: initSync_def)

lemma init_step_defined:
  "wasm g = Some x \<Longrightarrow> init_step h (Call c) (g, ws) = (Some (Inr x), (g, ws))"
  by (cases c) (simp_all add: wbg_init_begin_defined initSync_defined)

lemma init_run_defined:
  "wasm g = Some x \<Longrightarrow>
     init_run h as (g, []) =
       (map (\<lambda>b. case b of Call c \<Rightarrow> Some (Inr x) | Resume k \<Rightarrow> None) as, (g, []))"
proof (induction as)
  case Nil
  then show ?case by simp
next
  case (Cons a as)
  show ?case
  proof (cases a)
    case (Call c)
    with Cons show ?thesis
      by (simp add: init_step_defined)
  next
    case (Resume k)
    with Cons show ?thesis
      by simp
  qed
qed

lemma wbg_finalize_init_Inr:
  "wbg_finalize_init h x m g = (Inr y, g') \<Longrightarrow> wasm g' = Some y"
  by (auto simp: wbg_finalize_init_def Let_def split: if_splits)

lemma wbg_init_resume_Inr: "wbg_init_resume h i g = (Inr x, g') \<Longrightarrow> wasm g' = Some x"
  by (auto simp: wbg_init_resume_def Let_def split: option.splits prod.splits if_splits
      dest: wbg_finalize_init_Inr)

lemma initSync_Inr: "initSync h a g = (Inr x, g') \<Longrightarrow> wasm g' = Some x"
  by (auto simp: initSync_def split: option.splits prod.splits dest: wbg_finalize_init_Inr)

lemma wbg_init_begin_Returned: "wbg_init_begin a g = (Returned x, g') \<Longrightarrow> wasm g' = Some x"
  by (auto simp: wbg_init_begin_def split: option.splits prod.splits)

lemma init_step_Inr:
  assumes "init_step h a (g, ws) = (Some (Inr x), (g', ws'))"
  shows "wasm g' = Some x"
proof (cases a)
  case (Call c)
  show ?thesis
  proof (cases c)
    case (Init b)
    with Call assms show ?thesis
      by (auto split: prod.splits begun.splits dest: wbg_init_begin_Returned)
  next
    case (InitSync b)
    with Call assms show ?thesis
      by (auto split: prod.splits dest: initSync_Inr)
  qed
next
  case (Resume k)
  with assms show ?thesis
    by (auto split: if_splits prod.splits dest: wbg_init_resume_Inr)
qed

text \<open>
  Claim C10 as stated fails for calls that overlap. Two calls of \<^verbatim>\<open>init()\<close> are made before
  either has its module; both have found \<^verbatim>\<open>wasm\<close> undefined. The first continues and
  succeeds with instance 0, and a call made now returns instance 0. Then the second
  continues: it creates instance 1 and assigns it to \<^verbatim>\<open>wasm\<close>. A call made after that, and so
  after the first successful initialisation, returns instance 1, and two instances have
  been created.
\<close>

theorem overlapping_init_instantiates_twice:
  "init_run counting_host
     [Call (Init Undefined), Call (Init Undefined), Resume 0, Call (Init Undefined),
      Resume 0, Call (Init Undefined)]
     (glue0, []) =
   ([None, None, Some (Inr 0), Some (Inr 0), Some (Inr 1), Some (Inr 1)],
    (glue0\<lparr>wasm := Some 1, wbindgen_wasm_module := Some 0, instantiations := 2\<rparr>, []))"
  by (simp add: wbg_init_begin_def wbg_init_resume_def unwrap_arg_def wbg_finalize_init_def
      counting_host_def glue0_def)

text \<open>
  Claim C10, amended. When a call of \<^verbatim>\<open>__wbg_init\<close> or \<^verbatim>\<open>initSync\<close> has succeeded with the
  exports \<open>x\<close> and no call of \<^verbatim>\<open>__wbg_init\<close> is waiting for its module at that point, every
  later call of either entry point, whatever its argument, returns \<open>x\<close>, leaves the state of
  the script as it is and creates no instance. This covers calls of which each has
  finished before the next is made.
\<close>

theorem init_idempotent_without_overlap:
  assumes "init_step h a st = (Some (Inr x), (g', []))"
  shows "init_run h as (g', []) =
           (map (\<lambda>b. case b of Call c \<Rightarrow> Some (Inr x) | Resume k \<Rightarrow> None) as, (g', [])) \<and>
         instantiations (fst (snd (init_run h as (g', [])))) = instantiations g'"
proof -
  obtain g ws where "st = (g, ws)"
    by (cases st)
  with assms have "wasm g' = Some x"
    by (auto dest: init_step_Inr)
  then have "init_run h as (g', []) =
           (map (\<lambda>b. case b of Call c \<Rightarrow> Some (Inr x) | Resume k \<Rightarrow> None) as, (g', []))"
    by (rule init_run_defined)
  then show ?thesis
    by simp
qed

text \<open>
  One call of \<^verbatim>\<open>init()\<close>, alone, waits, continues and succeeds with instance 0; the three
  calls that follow return instance 0 and create nothing, and there is no call left to
  continue.
\<close>

theorem init_idempotent_without_overlap_witness:
  "init_step counting_host (Call (Init Undefined)) (glue0, []) = (None, (glue0, [None])) \<and>
   init_step counting_host (Resume 0) (glue0, [None]) =
     (Some (Inr 0),
      (glue0\<lparr>wasm := Some 0, wbindgen_wasm_module := Some 0, instantiations := 1\<rparr>, [])) \<and>
   init_run counting_host
     [Call (Init Undefined), Call (InitSync (Direct 3)), Resume 0, Call (Init (Options None))]
     (glue0\<lparr>wasm := Some 0, wbindgen_wasm_module := Some 0, instantiations := 1\<rparr>, []) =
     ([Some (Inr 0), Some (Inr 0), None, Some (Inr 0)],
      (glue0\<lparr>wasm := Some 0, wbindgen_wasm_module := Some 0, instantiations := 1\<rparr>, []))"
proof -
  have first: "init_step counting_host (Resume 0) (glue0, [None]) =
     (Some (Inr 0),
      (glue0\<lparr>wasm := Some 0, wbindgen_wasm_module := Some 0, instantiations := 1\<rparr>, []))"
    by (simp add: wbg_init_resume_def wbg_finalize_init_def counting_host_def glue0_def)
  have waits: "init_step counting_host (Call (Init Undefined)) (glue0, []) =
     (None, (glue0, [None]))"
    by (simp add: wbg_init_begin_def unwrap_arg_def glue0_def)
  from init_idempotent_without_overlap
         [OF first,
          of "[Call (Init Undefined), Call (InitSync (Direct 3)), Resume 0,
               Call (Init (Options None))]"]
  show ?thesis using first waits by simp
qed

subsection \<open>Encoding through the binding\<close>

lemma fst_Solution_encode:
  "fst (Solution_encode ex this g) = solution_encode ex (solution_ptr this)"
  by (simp add: Solution_encode_def getStringFromWasm0_def decodeText_def Let_def
      split: sum.splits prod.splits)

text \<open>
  The binding changes the state of the script: when the count of decoded bytes reaches the
  threshold, the decoder is replaced. The text returned is the text the module handed over.
\<close>

lemma encode_replaces_decoder:
  assumes "solution_encode ex (solution_ptr this) = Inr txt"
    and "MAX_SAFARI_DECODE_BYTES \<le> numBytesDecoded g + length txt"
  shows "textDecoders (snd (Solution_encode ex this g)) = Suc (textDecoders g) \<and>
         numBytesDecoded (snd (Solution_encode ex this g)) = length txt \<and>
         fst (Solution_encode ex this g) = Inr txt"
  using assms
  by (simp add: Solution_encode_def getStringFromWasm0_def decodeText_def Let_def)

subsection \<open>The facade and its worker\<close>

lemma DuckityClient_solve_eq:
  "DuckityClient_solve this a pc pg =
     (length (promises pg),
      \<lparr>workers = workers pg @
         [\<lparr>terminated = False,
           posted = [\<lparr>domain = this_domain this, appId = a, profileCode = pc\<rparr>],
           on_message = [length (promises pg)], on_error = [length (promises pg)]\<rparr>],
       promises = promises pg @ [Pending]\<rparr>)"
  by (simp add: DuckityClient_solve_def new_Worker_def postMessage_def waitForMessage_def
      update_worker_def Let_def)

lemma dispatch_message_fresh:
  "dispatchEvent (length ws) (MessageEvent d)
     \<lparr>workers = ws @ [\<lparr>terminated = t, posted = q, on_message = [length ps],
                        on_error = [length ps]\<rparr>],
      promises = ps @ [Pending]\<rparr> =
   \<lparr>workers = ws @ [\<lparr>terminated = t, posted = q, on_message = [], on_error = [length ps]\<rparr>],
    promises = ps @ [Fulfilled d]\<rparr>"
  by (simp add: successHandler_def settle_promise_def update_worker_def settle_def nth_append
      list_update_append)

lemma dispatch_error_fresh:
  "dispatchEvent (length ws) (ErrorEvent e)
     \<lparr>workers = ws @ [\<lparr>terminated = t, posted = q, on_message = [length ps],
                        on_error = [length ps]\<rparr>],
      promises = ps @ [Pending]\<rparr> =
   \<lparr>workers = ws @ [\<lparr>terminated = t, posted = q, on_message = [], on_error = []\<rparr>],
    promises = ps @
      [Rejected (''An error occurred while solving a Duckity challenge: '' @ e)]\<rparr>"
  by (simp add: errorHandler_def settle_promise_def update_worker_def settle_def nth_append
      list_update_append)

lemma worker_gone_fresh:
  "worker_gone (length ws) \<lparr>workers = ws @ [wk], promises = ps\<rparr> =
     \<lparr>workers = ws @ [wk\<lparr>terminated := True\<rparr>], promises = ps\<rparr>"
  by (simp add: worker_gone_def update_worker_def)

text \<open>A promise that has settled keeps its outcome, whatever events follow.\<close>

lemma promises_update_worker: "promises (update_worker w f pg) = promises pg"
  by (simp add: update_worker_def)

lemma settled_settle_promise:
  "promises pg ! p \<noteq> Pending \<Longrightarrow> promises (settle_promise out q pg) ! p = promises pg ! p"
  by (cases "p = q") (auto simp: settle_promise_def settle_def split: promise.splits)

lemma settled_successHandler:
  "promises pg ! p \<noteq> Pending \<Longrightarrow> promises (successHandler w q d pg) ! p = promises pg ! p"
  by (simp add: successHandler_def settled_settle_promise promises_update_worker)

lemma settled_errorHandler:
  "promises pg ! p \<noteq> Pending \<Longrightarrow> promises (errorHandler w q e pg) ! p = promises pg ! p"
  by (simp add: errorHandler_def settled_settle_promise promises_update_worker)

lemma settled_fold:
  assumes "\<And>q pg. promises pg ! p \<noteq> Pending \<Longrightarrow> promises (f q pg) ! p = promises pg ! p"
  shows "promises pg ! p \<noteq> Pending \<Longrightarrow> promises (fold f qs pg) ! p = promises pg ! p"
  using assms by (induction qs arbitrary: pg) simp_all

lemma settled_dispatchEvent:
  "promises pg ! p \<noteq> Pending \<Longrightarrow> promises (dispatchEvent w ev pg) ! p = promises pg ! p"
  by (cases ev) (simp_all add: settled_fold settled_successHandler settled_errorHandler)

lemma settled_for_good:
  "promises pg ! p \<noteq> Pending \<Longrightarrow>
     promises (fold (dispatchEvent w) evs pg) ! p = promises pg ! p"
  by (induction evs arbitrary: pg) (simp_all add: settled_dispatchEvent)

text \<open>The three ways a round can end, by what the worker does.\<close>

lemma round_with_token:
  assumes "onmessage h \<lparr>domain = this_domain this, appId = a, profileCode = pc\<rparr> glue0 =
             Inr encoded"
  shows "solve_round True h this a pc pg =
     (length (promises pg),
      \<lparr>workers = workers pg @
         [\<lparr>terminated = False,
           posted = [\<lparr>domain = this_domain this, appId = a, profileCode = pc\<rparr>],
           on_message = [], on_error = [length (promises pg)]\<rparr>],
       promises = promises pg @ [Fulfilled encoded]\<rparr>)"
  using assms
  by (simp add: solve_round_def DuckityClient_solve_eq worker_events_def Let_def
      dispatch_message_fresh del: dispatchEvent.simps)

lemma round_without_script:
  "solve_round False h this a pc pg =
     (length (promises pg),
      \<lparr>workers = workers pg @
         [\<lparr>terminated = True,
           posted = [\<lparr>domain = this_domain this, appId = a, profileCode = pc\<rparr>],
           on_message = [], on_error = []\<rparr>],
       promises = promises pg @
         [Rejected ''An error occurred while solving a Duckity challenge: undefined'']\<rparr>)"
  by (simp add: solve_round_def DuckityClient_solve_eq worker_events_def Let_def
      worker_gone_fresh dispatch_error_fresh del: dispatchEvent.simps)

lemma round_with_rejected_handler:
  assumes "onmessage h \<lparr>domain = this_domain this, appId = a, profileCode = pc\<rparr> glue0 = Inl e"
  shows "solve_round True h this a pc pg =
     (length (promises pg),
      \<lparr>workers = workers pg @
         [\<lparr>terminated = False,
           posted = [\<lparr>domain = this_domain this, appId = a, profileCode = pc\<rparr>],
           on_message = [length (promises pg)], on_error = [length (promises pg)]\<rparr>],
       promises = promises pg @ [Pending]\<rparr>)"
  using assms
  by (simp add: solve_round_def DuckityClient_solve_eq worker_events_def Let_def)

text \<open>
  Claim C2, at an input where it fails. The client \<^verbatim>\<open>new DuckityClient()\<close> calls
  \<^verbatim>\<open>solve("app-1", "profile-9")\<close> on an empty page; the worker script loads and the module
  initialises, and the promise of \<^verbatim>\<open>get_challenge\<close> is rejected with an error string. The
  handler in the worker is rejected at that step and posts nothing, no event reaches the
  worker object, and the promise the facade returned is still pending, with both of its
  handlers registered, after everything the worker does. This holds whatever the other
  exports of the module are.
\<close>

theorem rejected_fetch_never_settles:
  "solve_round True
     (ready_host \<lparr>duckityclient_get_challenge = (\<lambda>d a p. Inl (ErrorString ''request failed'')),
                  challenge_solve = cs, solution_encode = se, solution_raw_size = rs\<rparr>)
     default_client ''app-1'' ''profile-9'' page0 =
   (0, \<lparr>workers =
          [\<lparr>terminated = False,
            posted = [\<lparr>domain = ''quack.duckity.dev'', appId = ''app-1'',
                       profileCode = ''profile-9''\<rparr>],
            on_message = [0], on_error = [0]\<rparr>],
        promises = [Pending]\<rparr>)"
  by (simp add: solve_round_def worker_events_def DuckityClient_solve_eq onmessage_def
      wbg_init_def wbg_init_begin_def wbg_init_resume_def unwrap_arg_def wbg_finalize_init_def
      ready_host_def glue0_def get_challenge_def with_domain_def default_client_def page0_def
      Let_def)

subsection \<open>The domain in the worker\<close>

text \<open>
  The domain of a request reaches the outcome of the handler through what
  \<^verbatim>\<open>get_challenge\<close> returns for it, and in no other way.
\<close>

lemma onmessage_cong:
  assumes "\<And>ex g1. wbg_init h Undefined g = (Inr ex, g1) \<Longrightarrow>
     duckityclient_get_challenge ex d1 a p = duckityclient_get_challenge ex d2 a p"
  shows "onmessage h \<lparr>domain = d1, appId = a, profileCode = p\<rparr> g =
         onmessage h \<lparr>domain = d2, appId = a, profileCode = p\<rparr> g"
proof (cases "wbg_init h Undefined g")
  case (Pair r g1)
  show ?thesis
  proof (cases r)
    case (Inl e)
    with Pair show ?thesis by (simp add: onmessage_def)
  next
    case (Inr ex)
    with Pair assms
    have "duckityclient_get_challenge ex d1 a p = duckityclient_get_challenge ex d2 a p"
      by simp
    with Pair Inr show ?thesis
      by (simp add: onmessage_def get_challenge_def with_domain_def)
  qed
qed

subsection \<open>The lifetime of a worker\<close>

text \<open>
  Claim C3 as stated fails: after \<^verbatim>\<open>new DuckityClient().solve("app-1", "profile-9")\<close> on an
  empty page and a worker that answers with the token \<^verbatim>\<open>token\<close>, the promise is fulfilled
  with the token and the worker has not been terminated.
\<close>

theorem worker_alive_after_fulfilment:
  "promises (snd (solve_round True (ready_host (module_answering ''token''))
       default_client ''app-1'' ''profile-9'' page0)) ! 0 = Fulfilled ''token'' \<and>
   \<not> terminated (workers (snd (solve_round True (ready_host (module_answering ''token''))
       default_client ''app-1'' ''profile-9'' page0)) ! 0)"
  by (simp add: solve_round_def worker_events_def DuckityClient_solve_eq successHandler_def
      settle_promise_def update_worker_def settle_def onmessage_def
      wbg_init_def wbg_init_begin_def wbg_init_resume_def unwrap_arg_def wbg_finalize_init_def
      ready_host_def glue0_def
      get_challenge_def with_domain_def Challenge_solve_def Solution_encode_def
      getStringFromWasm0_def decodeText_def MAX_SAFARI_DECODE_BYTES_def Let_def
      module_answering_def default_client_def page0_def)

text \<open>
  Claim C3, amended. Every call of \<^verbatim>\<open>DuckityClient.solve\<close> creates a worker of its own, posts
  the one request to it and leaves the workers that exist as they are. When the script of
  the worker cannot be loaded, the worker is gone, the promise is rejected and both
  listeners are removed. On the success path the worker is not torn down: when it has
  posted its token, the promise is fulfilled, the \<^verbatim>\<open>message\<close> listener is removed, and the
  worker is still there, with the \<^verbatim>\<open>error\<close> listener registered.
\<close>

theorem worker_lifetime_by_path:
  "snd (DuckityClient_solve this a pc pg) =
     \<lparr>workers = workers pg @
        [\<lparr>terminated = False,
          posted = [\<lparr>domain = this_domain this, appId = a, profileCode = pc\<rparr>],
          on_message = [length (promises pg)], on_error = [length (promises pg)]\<rparr>],
      promises = promises pg @ [Pending]\<rparr> \<and>
   solve_round False h this a pc pg =
     (length (promises pg),
      \<lparr>workers = workers pg @
         [\<lparr>terminated = True,
           posted = [\<lparr>domain = this_domain this, appId = a, profileCode = pc\<rparr>],
           on_message = [], on_error = []\<rparr>],
       promises = promises pg @
         [Rejected ''An error occurred while solving a Duckity challenge: undefined'']\<rparr>) \<and>
   (onmessage h \<lparr>domain = this_domain this, appId = a, profileCode = pc\<rparr> glue0 = Inr encoded \<longrightarrow>
    solve_round True h this a pc pg =
      (length (promises pg),
       \<lparr>workers = workers pg @
          [\<lparr>terminated = False,
            posted = [\<lparr>domain = this_domain this, appId = a, profileCode = pc\<rparr>],
            on_message = [], on_error = [length (promises pg)]\<rparr>],
        promises = promises pg @ [Fulfilled encoded]\<rparr>))"
proof (intro conjI impI)
  show "snd (DuckityClient_solve this a pc pg) =
     \<lparr>workers = workers pg @
        [\<lparr>terminated = False,
          posted = [\<lparr>domain = this_domain this, appId = a, profileCode = pc\<rparr>],
          on_message = [length (promises pg)], on_error = [length (promises pg)]\<rparr>],
      promises = promises pg @ [Pending]\<rparr>"
    by (simp add: DuckityClient_solve_eq)
next
  show "solve_round False h this a pc pg =
     (length (promises pg),
      \<lparr>workers = workers pg @
         [\<lparr>terminated = True,
           posted = [\<lparr>domain = this_domain this, appId = a, profileCode = pc\<rparr>],
           on_message = [], on_error = []\<rparr>],
       promises = promises pg @
         [Rejected ''An error occurred while solving a Duckity challenge: undefined'']\<rparr>)"
    by (rule round_without_script)
next
  assume "onmessage h \<lparr>domain = this_domain this, appId = a, profileCode = pc\<rparr> glue0 =
            Inr encoded"
  then show "solve_round True h this a pc pg =
      (length (promises pg),
       \<lparr>workers = workers pg @
          [\<lparr>terminated = False,
            posted = [\<lparr>domain = this_domain this, appId = a, profileCode = pc\<rparr>],
            on_message = [], on_error = [length (promises pg)]\<rparr>],
        promises = promises pg @ [Fulfilled encoded]\<rparr>)"
    by (rule round_with_token)
qed

text \<open>
  The default client on an empty page, with a module that answers with the token
  \<^verbatim>\<open>token\<close>: the worker posts it, and the round ends with the promise fulfilled and the
  worker not torn down.
\<close>

theorem worker_lifetime_by_path_witness:
  "onmessage (ready_host (module_answering ''token''))
     \<lparr>domain = this_domain default_client, appId = ''app-1'', profileCode = ''profile-9''\<rparr>
     glue0 = Inr ''token'' \<and>
   solve_round True (ready_host (module_answering ''token'')) default_client
     ''app-1'' ''profile-9'' page0 =
     (0, \<lparr>workers =
            [\<lparr>terminated = False,
              posted = [\<lparr>domain = ''quack.duckity.dev'', appId = ''app-1'',
                         profileCode = ''profile-9''\<rparr>],
              on_message = [], on_error = [0]\<rparr>],
          promises = [Fulfilled ''token'']\<rparr>)"
proof -
  have posted: "onmessage (ready_host (module_answering ''token''))
     \<lparr>domain = this_domain default_client, appId = ''app-1'', profileCode = ''profile-9''\<rparr>
     glue0 = Inr ''token''"
    by (simp add: onmessage_def wbg_init_def wbg_init_begin_def wbg_init_resume_def
        unwrap_arg_def wbg_finalize_init_def ready_host_def glue0_def get_challenge_def
        with_domain_def Challenge_solve_def Solution_encode_def getStringFromWasm0_def
        decodeText_def MAX_SAFARI_DECODE_BYTES_def Let_def module_answering_def)
  from worker_lifetime_by_path
         [of default_client "''app-1''" "''profile-9''" page0
             "ready_host (module_answering ''token'')" "''token''"]
       posted
  show ?thesis
    by (simp add: default_client_def page0_def)
qed

section \<open>Properties of the puzzle engine behind the bindings\<close>

subsection \<open>Solving\<close>

lemma search_sound: "search sch C n k = (a, Some p) \<Longrightarrow> verify sch C p"
  by (induction k arbitrary: n a) (auto split: if_splits prod.splits)

lemma search_complete:
  "n \<le> m \<Longrightarrow> m < n + k \<Longrightarrow> verify sch C (candidate sch m) \<Longrightarrow>
     \<exists>a p. search sch C n k = (a, Some p)"
proof (induction k arbitrary: n)
  case 0
  then show ?case by simp
next
  case (Suc k)
  show ?case
  proof (cases "verify sch C (candidate sch n)")
    case True
    then show ?thesis by simp
  next
    case False
    with Suc.prems have "n \<noteq> m" by auto
    with Suc.prems have "Suc n \<le> m" "m < Suc n + k" by simp_all
    from Suc.IH [OF this Suc.prems(3)]
    obtain a p where "search sch C (Suc n) k = (a, Some p)"
      by blast
    with False show ?thesis by simp
  qed
qed

lemma solve_sound:
  "solve sch now C = (a, Inr s) \<Longrightarrow> sourceChallenge s = C \<and> verify sch C (proofv s)"
  by (auto simp: solve_def split: if_splits prod.splits option.splits dest: search_sound)

lemma solve_complete:
  assumes "\<not> expired now C" and "n < maxAttempts sch" and "verify sch C (candidate sch n)"
  shows "\<exists>a s. solve sch now C = (a, Inr s)"
proof -
  from search_complete [of 0 n "maxAttempts sch" sch C] assms
  obtain a p where "search sch C 0 (maxAttempts sch) = (a, Some p)"
    by auto
  with assms(1) show ?thesis by (simp add: solve_def)
qed

lemma Challenge_solve_engine:
  "Challenge_solve (engine sch now fetch) (Challenge C) =
     (case snd (solve sch now C) of
        Inl e \<Rightarrow> Inl (ErrorString (engine_error_text e))
      | Inr s \<Rightarrow> Inr (Solution s))"
  by (simp add: Challenge_solve_def engine_def split: sum.splits)

text \<open>
  Claim C1. For a challenge \<open>C\<close> that has not expired and whose difficulty is satisfiable,
  that is, some candidate \<open>n\<close> within the attempt bound verifies, \<^verbatim>\<open>Challenge.solve\<close> returns a
  solution; and every solution it returns, for any challenge, refers to the challenge it
  was called on and carries a proof that verifies against it: the digest of the seed
  followed by the proof satisfies the difficulty.
\<close>

theorem solve_returns_verified_solution:
  "(\<not> expired now C \<and> n < maxAttempts sch \<and> verify sch C (candidate sch n) \<longrightarrow>
      (\<exists>s. Challenge_solve (engine sch now fetch) (Challenge C) = Inr (Solution s))) \<and>
   (\<forall>s. Challenge_solve (engine sch now fetch) (Challenge C) = Inr (Solution s) \<longrightarrow>
      sourceChallenge s = C \<and> verify sch (sourceChallenge s) (proofv s))"
proof (intro conjI impI allI)
  assume "\<not> expired now C \<and> n < maxAttempts sch \<and> verify sch C (candidate sch n)"
  then obtain a s where "solve sch now C = (a, Inr s)"
    using solve_complete by blast
  then show "\<exists>s. Challenge_solve (engine sch now fetch) (Challenge C) = Inr (Solution s)"
    by (simp add: Challenge_solve_engine)
next
  fix s
  assume "Challenge_solve (engine sch now fetch) (Challenge C) = Inr (Solution s)"
  then have "snd (solve sch now C) = Inr s"
    by (simp add: Challenge_solve_engine split: sum.splits)
  then have "solve sch now C = (fst (solve sch now C), Inr s)"
    by (metis prod.collapse)
  from solve_sound [OF this]
  show "sourceChallenge s = C" and "verify sch (sourceChallenge s) (proofv s)"
    by simp_all
qed

text \<open>
  The challenge with seed \<open>0xFD\<close> and eight required zero bits, solved at time 50: the
  candidates 0, 1 and 2 fail, candidate 3 makes the digest \<open>0x00\<close>.
\<close>

theorem solve_returns_verified_solution_witness:
  "\<not> expired 50 demo_challenge \<and> 3 < maxAttempts demo_scheme \<and>
   verify demo_scheme demo_challenge (candidate demo_scheme 3) \<and>
   Challenge_solve (engine demo_scheme 50 (\<lambda>d a p. Inr demo_challenge))
     (Challenge demo_challenge) = Inr (Solution demo_solution) \<and>
   verify demo_scheme (sourceChallenge demo_solution) (proofv demo_solution)"
proof -
  have e: "\<not> expired 50 demo_challenge"
    by (simp add: expired_def demo_challenge_def)
  have m: "3 < maxAttempts demo_scheme"
    by (simp add: demo_scheme_def)
  have v: "verify demo_scheme demo_challenge (candidate demo_scheme 3)"
    by (simp add: verify_def demo_scheme_def demo_challenge_def)
  have r: "Challenge_solve (engine demo_scheme 50 (\<lambda>d a p. Inr demo_challenge))
     (Challenge demo_challenge) = Inr (Solution demo_solution)"
    by code_simp
  from solve_returns_verified_solution
         [of 50 demo_challenge 3 demo_scheme "\<lambda>d a p. Inr demo_challenge"] r
  have "verify demo_scheme (sourceChallenge demo_solution) (proofv demo_solution)"
    by blast
  with e m v r show ?thesis by blast
qed

subsection \<open>Size and token\<close>

lemma to_uint32_sint: "to_uint32 (sint (w :: 32 word)) = unat w"
proof -
  have "uint w = sint w mod 2 ^ 32"
    using uint_sint [of w] by (simp add: take_bit_eq_mod)
  then have "nat (sint w mod 2 ^ 32) = nat (uint w)"
    by simp
  then show ?thesis
    by (simp add: to_uint32_def)
qed

lemma b64url_length: "length (b64url bs) = (4 * length bs + 2) div 3"
  by (induction bs rule: b64url.induct) simp_all

text \<open>
  Claim C8. For a solution whose serialized form fits the 32-bit size the module returns,
  \<^verbatim>\<open>Solution.raw_size\<close> is the byte length of the serialized form, \<^verbatim>\<open>Solution.encode\<close> returns
  the token of that form, and the length of the token is four thirds of the raw size,
  rounded up: \<open>(4 * raw_size + 2) div 3\<close>.
\<close>

theorem raw_size_and_token_length:
  assumes "rawSize sch s < 2 ^ 32"
  shows "Solution_raw_size (engine sch now fetch) (Solution s) = length (serialize sch s) \<and>
         fst (Solution_encode (engine sch now fetch) (Solution s) g) = Inr (encode sch s) \<and>
         length (encode sch s) =
           (4 * Solution_raw_size (engine sch now fetch) (Solution s) + 2) div 3"
proof -
  have "unat (of_nat (rawSize sch s) :: 32 word) = rawSize sch s"
    using assms by (simp add: unat_of_nat)
  then have size: "Solution_raw_size (engine sch now fetch) (Solution s) =
                     length (serialize sch s)"
    by (simp add: Solution_raw_size_def to_uint32_sint engine_def rawSize_def)
  have "fst (Solution_encode (engine sch now fetch) (Solution s) g) = Inr (encode sch s)"
    by (simp add: fst_Solution_encode engine_def)
  moreover have "length (encode sch s) = (4 * length (serialize sch s) + 2) div 3"
    by (simp add: encode_def b64url_length)
  ultimately show ?thesis using size by simp
qed

text \<open>The solution of the example: two bytes before encoding, three characters after.\<close>

theorem raw_size_and_token_length_witness:
  "rawSize demo_scheme demo_solution < 2 ^ 32 \<and>
   Solution_raw_size (engine demo_scheme 50 (\<lambda>d a p. Inr demo_challenge))
     (Solution demo_solution) = 2 \<and>
   fst (Solution_encode (engine demo_scheme 50 (\<lambda>d a p. Inr demo_challenge))
     (Solution demo_solution) (glue0 :: (unit, unit) glue)) = Inr ''_QM''"
proof -
  have ser: "serialize demo_scheme demo_solution = [0xFD, 3]"
    by (simp add: serialize_def demo_scheme_def demo_solution_def demo_challenge_def)
  have small: "rawSize demo_scheme demo_solution < 2 ^ 32"
    by (simp add: rawSize_def ser)
  have tok: "encode demo_scheme demo_solution = ''_QM''"
    unfolding encode_def ser by code_simp
  from raw_size_and_token_length
         [OF small, of 50 "\<lambda>d a p. Inr demo_challenge" "glue0 :: (unit, unit) glue"]
  show ?thesis using small by (simp add: ser tok)
qed

end
